theory Spec2Isabelle
  imports Complex_Main "HOL-Library.Word" "HOL-Library.Log_Nat"
begin

section \<open>JavaScript values\<close>

text \<open>
  A JavaScript string is a sequence of 16-bit code units.  ASCII literals of the source
  are written through \<open>js\<close>; the few non-ASCII characters of the messages are given by
  their code unit.
\<close>

type_synonym jsstring = "16 word list"

definition js :: "string \<Rightarrow> jsstring" where
  "js s = map (\<lambda>c. of_nat (of_char c)) s"

text \<open>
  A JavaScript Number: NaN, the two infinities, or a finite binary64 value, held as the
  rational it denotes.  The two zeros are not distinguished (they compare alike).
  The relational operators follow the language: every comparison with NaN is false.
\<close>

datatype jsnum = NaN | PosInfinity | NegInfinity | Num rat

fun js_lt :: "jsnum \<Rightarrow> jsnum \<Rightarrow> bool" where
  "js_lt NaN _ = False"
| "js_lt _ NaN = False"
| "js_lt PosInfinity _ = False"
| "js_lt _ NegInfinity = False"
| "js_lt NegInfinity _ = True"
| "js_lt (Num a) PosInfinity = True"
| "js_lt (Num a) (Num b) = (a < b)"

definition js_le :: "jsnum \<Rightarrow> jsnum \<Rightarrow> bool" where
  "js_le x y = (x \<noteq> NaN \<and> y \<noteq> NaN \<and> \<not> js_lt y x)"

definition js_ge :: "jsnum \<Rightarrow> jsnum \<Rightarrow> bool" where
  "js_ge x y = js_le y x"

definition js_gt :: "jsnum \<Rightarrow> jsnum \<Rightarrow> bool" where
  "js_gt x y = js_lt y x"

subsection \<open>Rounding a rational to binary64\<close>

text \<open>
  The Number value for a rational: the nearest binary64 value, ties to the even
  significand; below 2 to the power -1022 the spacing is that of the subnormal range, and
  a result of magnitude 2 to the power 1024 or more is an infinity.  (For a literal of
  more than 20 significant digits the language lets an engine round from a truncated
  literal instead; the engines in use round exactly, as here.)
\<close>

definition ratpow :: "rat \<Rightarrow> int \<Rightarrow> rat" where
  "ratpow b k = (if 0 \<le> k then b ^ nat k else 1 / b ^ nat (- k))"

definition floorlog2 :: "rat \<Rightarrow> int" where
  "floorlog2 x =
     (let (p, q) = quotient_of x;
          d = bitlen p - bitlen q
      in if ratpow 2 d \<le> x then d else d - 1)"

definition roundHalfEven :: "rat \<Rightarrow> int" where
  "roundHalfEven x =
     (let f = \<lfloor>x\<rfloor>; r = x - of_int f
      in if r < 1 / 2 then f
         else if 1 / 2 < r then f + 1
         else if even f then f else f + 1)"

definition numberValue :: "rat \<Rightarrow> jsnum" where
  "numberValue x =
     (if x = 0 then Num 0
      else
        let a = \<bar>x\<bar>;
            e = floorlog2 a;
            q = ratpow 2 (max e (- 1022) - 52);
            r = of_int (roundHalfEven (a / q)) * q
        in if ratpow 2 1024 \<le> r then (if x < 0 then NegInfinity else PosInfinity)
           else Num (if x < 0 then - r else r))"

subsection \<open>The built-in parseFloat\<close>

text \<open>
  \<open>parseFloat\<close> drops leading white space and line terminators, reads the longest
  prefix that is a decimal literal (sign, \<open>Infinity\<close> or digits with an optional
  fraction and an optional exponent) and returns the Number value of that prefix, or
  NaN when there is no such prefix.
\<close>

definition isWhiteSpace :: "16 word \<Rightarrow> bool" where
  "isWhiteSpace c =
     (c \<in> {0x9, 0xA, 0xB, 0xC, 0xD, 0x20, 0xA0, 0x1680, 0x2028, 0x2029, 0x202F, 0x205F,
            0x3000, 0xFEFF}
      \<or> (0x2000 \<le> c \<and> c \<le> 0x200A))"

definition isDigit :: "16 word \<Rightarrow> bool" where
  "isDigit c = (0x30 \<le> c \<and> c \<le> 0x39)"

definition digitsValue :: "jsstring \<Rightarrow> int" where
  "digitsValue ds = foldl (\<lambda>a c. 10 * a + (uint c - 48)) 0 ds"

definition exponentPart :: "jsstring \<Rightarrow> int" where
  "exponentPart s =
     (case s of
        [] \<Rightarrow> 0
      | c # r \<Rightarrow>
          if c = 0x65 \<or> c = 0x45 then
            (case r of
               [] \<Rightarrow> 0
             | d # r' \<Rightarrow>
                 if d = 0x2D then - digitsValue (takeWhile isDigit r')
                 else if d = 0x2B then digitsValue (takeWhile isDigit r')
                 else digitsValue (takeWhile isDigit r))
          else 0)"

definition strDecimalLiteral :: "bool \<Rightarrow> jsstring \<Rightarrow> jsnum" where
  "strDecimalLiteral neg s =
     (if take 8 s = js ''Infinity'' then (if neg then NegInfinity else PosInfinity)
      else
        let ip = takeWhile isDigit s;
            r1 = dropWhile isDigit s;
            hasDot = (case r1 of [] \<Rightarrow> False | c # _ \<Rightarrow> c = 0x2E);
            fp = (if hasDot then takeWhile isDigit (tl r1) else []);
            r2 = (if hasDot then dropWhile isDigit (tl r1) else r1)
        in if ip = [] \<and> fp = [] then NaN
           else
             let mv = of_int (digitsValue (ip @ fp))
                        * ratpow 10 (exponentPart r2 - int (length fp))
             in numberValue (if neg then - mv else mv))"

definition parseFloat :: "jsstring \<Rightarrow> jsnum" where
  "parseFloat inputString =
     (case dropWhile isWhiteSpace inputString of
        [] \<Rightarrow> NaN
      | c # r \<Rightarrow>
          if c = 0x2D then strDecimalLiteral True r
          else if c = 0x2B then strDecimalLiteral False r
          else strDecimalLiteral False (c # r))"


text \<open>
  \<open>Number.prototype.toString\<close> on a non-negative integer (an array length): its decimal
  digits.
\<close>

fun decimal :: "nat \<Rightarrow> jsstring" where
  "decimal n =
     (if n < 10 then [of_nat (48 + n)]
      else decimal (n div 10) @ [of_nat (48 + n mod 10)])"

declare decimal.simps [simp del]

section \<open>The data contract (services/graphql-queries, services/graphql-mutations)\<close>

datatype operation =
    GET_ALL_COMPTES
  | GET_COMPTE_BY_ID
  | GET_TOTAL_SOLDE
  | GET_COMPTE_BY_TYPE
  | GET_COMPTE_TRANSACTIONS
  | GET_ALL_TRANSACTIONS
  | GET_TRANSACTION_STATS
  | SAVE_COMPTE
  | DELETE_COMPTE
  | ADD_TRANSACTION

text \<open>
  The variables objects the two forms build:
  \<open>{ compte: { solde, type } }\<close> and
  \<open>{ transactionRequest: { type, montant, compteId } }\<close>.
\<close>

datatype variables =
    CompteRequest jsnum jsstring
  | TransactionRequest jsstring jsnum jsstring

record compte =
  compte_id :: jsstring
  compte_solde :: jsnum
  compte_dateCreation :: jsstring
  compte_type :: jsstring

section \<open>Effects and the Apollo hooks\<close>

text \<open>
  What a handler does to the outside world, in order: \<open>e.preventDefault()\<close>,
  \<open>alert(message)\<close>, a mutation sent to the backend, a query sent to the backend.
\<close>

datatype effect =
    PreventDefault
  | Alert jsstring
  | NetworkMutation operation variables
  | NetworkQuery operation

text \<open>
  How the promise of a mutation settles is decided by the backend and the network:
  it resolves, or it rejects with an error whose \<open>message\<close> is given.
\<close>

datatype outcome = Resolved | Rejected jsstring

text \<open>
  The function returned by \<open>useMutation(doc, { refetchQueries })\<close>: it sends the
  mutation; when the mutation succeeds the listed queries are sent again, when it fails
  none is.
\<close>

definition mutate :: "operation \<Rightarrow> operation list \<Rightarrow> variables \<Rightarrow> outcome \<Rightarrow> effect list" where
  "mutate doc refetchQueries vars out =
     (case out of
        Resolved \<Rightarrow> NetworkMutation doc vars # map NetworkQuery refetchQueries
      | Rejected _ \<Rightarrow> [NetworkMutation doc vars])"

text \<open>The \<open>refetch\<close> function returned by \<open>useQuery(doc)\<close> sends that query again.\<close>

definition refetch :: "operation \<Rightarrow> effect list" where
  "refetch doc = [NetworkQuery doc]"

fun networkCalls :: "effect list \<Rightarrow> effect list" where
  "networkCalls [] = []"
| "networkCalls (NetworkMutation d v # es) = NetworkMutation d v # networkCalls es"
| "networkCalls (NetworkQuery d # es) = NetworkQuery d # networkCalls es"
| "networkCalls (_ # es) = networkCalls es"

fun refetched :: "effect list \<Rightarrow> operation list" where
  "refetched [] = []"
| "refetched (NetworkQuery d # es) = d # refetched es"
| "refetched (_ # es) = refetched es"

fun alerts :: "effect list \<Rightarrow> jsstring list" where
  "alerts [] = []"
| "alerts (Alert m # es) = m # alerts es"
| "alerts (_ # es) = alerts es"

section \<open>components/TransactionForm\<close>

record transactionForm =
  tf_type :: jsstring
  tf_montant :: jsstring
  tf_compteId :: jsstring

definition TransactionForm_initial :: transactionForm where
  "TransactionForm_initial = \<lparr>tf_type = js ''DEPOT'', tf_montant = [], tf_compteId = []\<rparr>"

definition TransactionForm_refetchQueries :: "operation list" where
  "TransactionForm_refetchQueries = [GET_ALL_TRANSACTIONS, GET_ALL_COMPTES]"

definition montant_invalide :: jsstring where
  "montant_invalide = js ''Veuillez entrer un montant valide''"

definition compte_non_selectionne :: jsstring where
  "compte_non_selectionne = js ''Veuillez s'' @ [0xE9] @ js ''lectionner un compte''"

definition transaction_succes :: "jsstring \<Rightarrow> jsstring" where
  "transaction_succes type =
     [0x2705] @ js '' ''
       @ (if type = js ''DEPOT'' then js ''D'' @ [0xE9] @ js ''p'' @ [0xF4] @ js ''t''
          else js ''Retrait'')
       @ js '' effectu'' @ [0xE9] @ js '' avec succ'' @ [0xE8] @ js ''s !''"

definition erreur :: "jsstring \<Rightarrow> jsstring" where
  "erreur message = [0x274C] @ js '' Erreur : '' @ message"

definition TransactionForm_handleSubmit ::
    "transactionForm \<Rightarrow> outcome \<Rightarrow> transactionForm \<times> effect list" where
  "TransactionForm_handleSubmit st out =
     (if tf_montant st = [] \<or> js_le (parseFloat (tf_montant st)) (Num 0) then
        (st, [PreventDefault, Alert montant_invalide])
      else if tf_compteId st = [] then
        (st, [PreventDefault, Alert compte_non_selectionne])
      else
        let sent = mutate ADD_TRANSACTION TransactionForm_refetchQueries
                     (TransactionRequest (tf_type st) (parseFloat (tf_montant st))
                        (tf_compteId st)) out
        in case out of
             Resolved \<Rightarrow>
               (st\<lparr>tf_montant := []\<rparr>,
                PreventDefault # sent @ [Alert (transaction_succes (tf_type st))])
           | Rejected message \<Rightarrow>
               (st, PreventDefault # sent @ [Alert (erreur message)]))"

section \<open>components/CreateCompte\<close>

record createCompte =
  cc_solde :: jsstring
  cc_type :: jsstring

definition CreateCompte_initial :: createCompte where
  "CreateCompte_initial = \<lparr>cc_solde = [], cc_type = js ''COURANT''\<rparr>"

definition CreateCompte_refetchQueries :: "operation list" where
  "CreateCompte_refetchQueries = [GET_ALL_COMPTES]"

definition solde_invalide :: jsstring where
  "solde_invalide = js ''Veuillez entrer un solde valide''"

definition compte_succes :: jsstring where
  "compte_succes =
     [0x2705] @ js '' Compte cr'' @ [0xE9, 0xE9] @ js '' avec succ'' @ [0xE8] @ js ''s !''"

definition CreateCompte_handleSubmit ::
    "createCompte \<Rightarrow> outcome \<Rightarrow> createCompte \<times> effect list" where
  "CreateCompte_handleSubmit st out =
     (if cc_solde st = [] \<or> js_lt (parseFloat (cc_solde st)) (Num 0) then
        (st, [PreventDefault, Alert solde_invalide])
      else
        let sent = mutate SAVE_COMPTE CreateCompte_refetchQueries
                     (CompteRequest (parseFloat (cc_solde st)) (cc_type st)) out
        in case out of
             Resolved \<Rightarrow>
               (st\<lparr>cc_solde := [], cc_type := js ''COURANT''\<rparr>,
                PreventDefault # sent @ [Alert compte_succes])
           | Rejected message \<Rightarrow>
               (st, PreventDefault # sent @ [Alert (erreur message)]))"

section \<open>components/CompteList\<close>

text \<open>
  The rendered tree: text nodes and elements with their attributes and children.  The
  only event handler of the component is the refresh button's \<open>() => refetch()\<close>.
\<close>

datatype handler = Refetch operation

datatype attr =
    ClassName string
  | Title string
  | Key jsstring
  | OnClick handler
  | Attr string string

datatype jsx = Text jsstring | Elem string "attr list" "jsx list"

fun fire :: "handler \<Rightarrow> effect list" where
  "fire (Refetch doc) = refetch doc"

text \<open>
  What \<open>useQuery\<close> hands to the component: the \<open>loading\<close> flag, the \<open>message\<close> of
  \<open>error\<close> when there is one, and \<open>data.allComptes\<close> when there is data.
\<close>

record queryResult =
  qr_loading :: bool
  qr_error :: "jsstring option"
  qr_data :: "compte list option"

datatype js_error = TypeError

definition CompteList_query :: operation where
  "CompteList_query = GET_ALL_COMPTES"

definition chargement :: jsx where
  "chargement =
     Elem ''div'' [ClassName ''flex items-center justify-center py-12'']
       [Elem ''div'' [ClassName ''animate-spin rounded-full h-8 w-8 border-b-2 border-blue-600''] [],
        Elem ''span'' [ClassName ''ml-3 text-slate-600'']
          [Text (js ''Chargement des comptes...'')]]"

definition erreur_chargement :: "jsstring \<Rightarrow> jsx" where
  "erreur_chargement message =
     Elem ''div'' [ClassName ''bg-red-50 border border-red-200 rounded-lg p-4'']
       [Elem ''div'' [ClassName ''flex items-center'']
          [Elem ''div'' [ClassName ''text-red-500 mr-3''] [Text [0x26A0, 0xFE0F]],
           Elem ''div'' []
             [Elem ''p'' [ClassName ''font-semibold text-red-800'']
                [Text (js ''Erreur de chargement'')],
              Elem ''p'' [ClassName ''text-red-600 text-sm''] [Text message]]]]"

definition entete :: "nat \<Rightarrow> jsx" where
  "entete n =
     Elem ''div'' [ClassName ''flex justify-between items-center'']
       [Elem ''div'' [ClassName ''flex items-center space-x-2'']
          [Elem ''span'' [ClassName ''text-sm text-slate-600'']
             [Text (js ''Total: ''), Text (decimal n), Text (js '' compte(s)'')]],
        Elem ''button''
          [OnClick (Refetch CompteList_query),
           ClassName ''text-slate-600 hover:text-slate-800 p-2 rounded-lg hover:bg-slate-100 transition'',
           Title ''Actualiser'']
          [Elem ''svg''
             [ClassName ''w-5 h-5'', Attr ''fill'' ''none'', Attr ''stroke'' ''currentColor'',
              Attr ''viewBox'' ''0 0 24 24'']
             [Elem ''path''
                [Attr ''strokeLinecap'' ''round'', Attr ''strokeLinejoin'' ''round'',
                 Attr ''strokeWidth'' ''2'',
                 Attr ''d'' ''M4 4v5h.582m15.356 2A8.001 8.001 0 004.582 9m0 0H9m11 11v-5h-.581m0 0a8.003 8.003 0 01-15.357-2m15.357 2H15'']
                []]]]"

definition aucun_compte :: jsx where
  "aucun_compte =
     Elem ''div'' [ClassName ''text-center py-12'']
       [Elem ''div'' [ClassName ''text-4xl mb-4''] [Text [0xD83C, 0xDFE6]],
        Elem ''p'' [ClassName ''text-slate-500''] [Text (js ''Aucun compte disponible'')],
        Elem ''p'' [ClassName ''text-slate-400 text-sm mt-2'']
          [Text (js ''Cr'' @ [0xE9] @ js ''ez votre premier compte pour commencer'')]]"

text \<open>
  One account card.  \<open>toFixed2\<close> stands for \<open>Number.prototype.toFixed(2)\<close> and
  \<open>toLocaleDateString\<close> for \<open>new Date(s).toLocaleDateString('fr-FR')\<close>, both of the
  host runtime.
\<close>

definition carte :: "(jsnum \<Rightarrow> jsstring) \<Rightarrow> (jsstring \<Rightarrow> jsstring) \<Rightarrow> compte \<Rightarrow> jsx" where
  "carte toFixed2 toLocaleDateString c =
     Elem ''div''
       [Key (compte_id c),
        ClassName ''account-card rounded-xl p-6 hover:shadow-card transition-all duration-300'']
       [Elem ''div'' [ClassName ''flex items-center justify-between mb-4'']
          [Elem ''div'' [ClassName ''flex items-center space-x-3'']
             [Elem ''div''
                [ClassName (''w-12 h-12 rounded-full flex items-center justify-center ''
                   @ (if compte_type c = js ''COURANT'' then ''bg-blue-100 text-blue-600''
                      else ''bg-green-100 text-green-600''))]
                [Text (if compte_type c = js ''COURANT'' then [0xD83D, 0xDCB3]
                       else [0xD83D, 0xDCB0])],
              Elem ''div'' []
                [Elem ''p'' [ClassName ''font-semibold text-slate-800'']
                   [Text (if compte_type c = js ''COURANT'' then js ''Compte Courant''
                          else js ''Compte '' @ [0xC9] @ js ''pargne'')],
                 Elem ''p'' [ClassName ''text-xs text-slate-500 font-mono'']
                   [Text (js ''ID: ''), Text (take 8 (compte_id c)), Text (js ''...'')]]],
           Elem ''div'' [ClassName ''text-right'']
             [Elem ''p'' [ClassName ''text-2xl font-bold text-slate-800'']
                [Text (toFixed2 (compte_solde c)), Text (js '' '' @ [0x20AC])],
              Elem ''p'' [ClassName ''text-xs text-slate-500'']
                [Text (js ''Cr'' @ [0xE9, 0xE9] @ js '' le ''),
                 Text (toLocaleDateString (compte_dateCreation c))]]],
        Elem ''div'' [ClassName ''flex items-center justify-between'']
          [Elem ''div''
             [ClassName (''px-3 py-1 rounded-full text-xs font-medium ''
                @ (if compte_type c = js ''COURANT'' then ''bg-blue-100 text-blue-800''
                   else ''bg-green-100 text-green-800''))]
             [Text (compte_type c)],
           Elem ''div''
             [ClassName (''px-3 py-1 rounded-full text-xs font-medium ''
                @ (if js_ge (compte_solde c) (Num 0) then ''bg-green-100 text-green-800''
                   else ''bg-red-100 text-red-800''))]
             [Text (if js_ge (compte_solde c) (Num 0) then [0x2713] @ js '' Solde positif''
                    else [0x26A0, 0xFE0F] @ js '' Solde n'' @ [0xE9] @ js ''gatif'')]]]"

definition CompteList ::
    "(jsnum \<Rightarrow> jsstring) \<Rightarrow> (jsstring \<Rightarrow> jsstring) \<Rightarrow> queryResult \<Rightarrow> js_error + jsx" where
  "CompteList toFixed2 toLocaleDateString q =
     (if qr_loading q then Inr chargement
      else case qr_error q of
        Some message \<Rightarrow> Inr (erreur_chargement message)
      | None \<Rightarrow>
          (case qr_data q of
             None \<Rightarrow> Inl TypeError
           | Some allComptes \<Rightarrow>
               Inr (Elem ''div'' [ClassName ''space-y-4'']
                      [entete (length allComptes),
                       if length allComptes = 0 then aucun_compte
                       else Elem ''div'' [ClassName ''grid gap-4'']
                              (map (carte toFixed2 toLocaleDateString) allComptes)])))"

text \<open>The two accounts that CompteList.test.js feeds to the component.\<close>

definition mockComptes :: "compte list" where
  "mockComptes =
     [\<lparr>compte_id = js ''1'', compte_solde = Num (3001 / 2),
        compte_dateCreation = js ''2025-01-15'', compte_type = js ''COURANT''\<rparr>,
      \<lparr>compte_id = js ''2'', compte_solde = Num 5000,
        compte_dateCreation = js ''2025-02-20'', compte_type = js ''EPARGNE''\<rparr>]"

text \<open>Reading a rendered tree: its nodes, its text, its keyed rows, its buttons.\<close>

fun nodes :: "jsx \<Rightarrow> jsx list" where
  "nodes (Text t) = [Text t]"
| "nodes (Elem tag as cs) = Elem tag as cs # concat (map nodes cs)"

fun textContent :: "jsx \<Rightarrow> jsstring" where
  "textContent (Text t) = t"
| "textContent (Elem tag as cs) = concat (map textContent cs)"

fun keys :: "attr list \<Rightarrow> jsstring list" where
  "keys [] = []"
| "keys (Key k # as) = k # keys as"
| "keys (_ # as) = keys as"

fun rows :: "jsx \<Rightarrow> jsstring list" where
  "rows (Text t) = []"
| "rows (Elem tag as cs) = keys as @ concat (map rows cs)"

fun handlers :: "attr list \<Rightarrow> handler list" where
  "handlers [] = []"
| "handlers (OnClick h # as) = h # handlers as"
| "handlers (_ # as) = handlers as"

fun buttons :: "jsx \<Rightarrow> handler list" where
  "buttons (Text t) = []"
| "buttons (Elem tag as cs) =
     (if tag = ''button'' then handlers as else []) @ concat (map buttons cs)"

section \<open>clients/apollo-client\<close>

datatype fetchPolicy = CacheFirst | CacheAndNetwork | NetworkOnly | CacheOnly | NoCache | Standby

datatype cache = InMemoryCache

record httpLink =
  uri :: string
  credentials :: string

record defaultOptions =
  watchQuery_fetchPolicy :: "fetchPolicy option"
  query_fetchPolicy :: "fetchPolicy option"

record apolloClient =
  link :: httpLink
  cache :: cache
  defaultOptions :: defaultOptions

definition client :: apolloClient where
  "client =
     \<lparr>link = \<lparr>uri = ''/graphql'', credentials = ''include''\<rparr>,
      cache = InMemoryCache,
      defaultOptions =
        \<lparr>watchQuery_fetchPolicy = Some NetworkOnly, query_fetchPolicy = Some NetworkOnly\<rparr>\<rparr>"

text \<open>
  Apollo Client's reading of a fetch policy: the policy given with the call wins over the
  client's default, and \<open>cache-first\<close> holds when neither is given.  A read goes to the
  network or not according to its policy and to whether the cache can answer it; every
  policy but \<open>no-cache\<close> stores the result in the cache.
\<close>

datatype readKind = WatchQuery | OneShotQuery

definition defaultPolicy :: "apolloClient \<Rightarrow> readKind \<Rightarrow> fetchPolicy option" where
  "defaultPolicy c k =
     (case k of
        WatchQuery \<Rightarrow> watchQuery_fetchPolicy (defaultOptions c)
      | OneShotQuery \<Rightarrow> query_fetchPolicy (defaultOptions c))"

definition effectivePolicy :: "apolloClient \<Rightarrow> readKind \<Rightarrow> fetchPolicy option \<Rightarrow> fetchPolicy" where
  "effectivePolicy c k given =
     (case given of
        Some p \<Rightarrow> p
      | None \<Rightarrow> (case defaultPolicy c k of Some p \<Rightarrow> p | None \<Rightarrow> CacheFirst))"

fun goesToNetwork :: "fetchPolicy \<Rightarrow> bool \<Rightarrow> bool" where
  "goesToNetwork CacheFirst cached = (\<not> cached)"
| "goesToNetwork CacheAndNetwork cached = True"
| "goesToNetwork NetworkOnly cached = True"
| "goesToNetwork NoCache cached = True"
| "goesToNetwork CacheOnly cached = False"
| "goesToNetwork Standby cached = False"

fun storesResult :: "fetchPolicy \<Rightarrow> bool" where
  "storesResult NoCache = False"
| "storesResult CacheOnly = False"
| "storesResult Standby = False"
| "storesResult _ = True"

text \<open>
  The reads of the components give no fetch policy of their own: \<open>useQuery(doc)\<close> in
  CompteList and TransactionForm is a watched query, and each \<open>{ query: doc }\<close> of a
  \<open>refetchQueries\<close> list is a one-shot query.
\<close>

definition readGoesToNetwork :: "apolloClient \<Rightarrow> readKind \<Rightarrow> operation \<Rightarrow> bool \<Rightarrow> bool" where
  "readGoesToNetwork c k doc cached = goesToNetwork (effectivePolicy c k None) cached"

section \<open>Facts about the number model\<close>

lemma js_gt_not_le: "js_gt x (Num 0) \<Longrightarrow> \<not> js_le x (Num 0)"
  by (simp add: js_gt_def js_le_def)

lemma js_ge_not_lt: "js_ge x (Num 0) \<Longrightarrow> \<not> js_lt x (Num 0)"
  by (simp add: js_ge_def js_le_def)

lemma js_not_Nil: "js (c # s) \<noteq> []"
  by (simp add: js_def)

lemma parseFloat_abc: "parseFloat (js ''abc'') = NaN"
  by (simp add: parseFloat_def js_def isWhiteSpace_def strDecimalLiteral_def isDigit_def)

lemma parseFloat_tenth:
  "parseFloat (js ''0.1'') = Num (3602879701896397 / 36028797018963968)"
  by code_simp

lemma parseFloat_prefix: "parseFloat (js '' -5.25e1xyz'') = Num (- 105 / 2)"
  by code_simp

lemma parseFloat_500: "parseFloat (js ''500'') = Num 500"
  by code_simp

lemma parseFloat_minus5: "parseFloat (js ''-5'') = Num (- 5)"
  by code_simp

lemma parseFloat_1000: "parseFloat (js ''1000'') = Num 1000"
  by code_simp

section \<open>Facts about the rendered tree\<close>

lemma rows_carte: "rows (carte f g c) = [compte_id c]"
  by (simp add: carte_def)

lemma rows_cartes: "concat (map (rows \<circ> carte f g) cs) = map compte_id cs"
  by (induction cs) (simp_all add: rows_carte)

lemma rows_entete: "rows (entete n) = []"
  by (simp add: entete_def)

lemma label_entete:
  "js ''Total: '' @ decimal n @ js '' compte(s)'' \<in> textContent ` set (nodes (entete n))"
  by (simp add: entete_def)

lemma decimal_0: "decimal 0 = js ''0''"
  by (simp add: decimal.simps js_def)

lemma decimal_2: "decimal (Suc (Suc 0)) = js ''2''"
  by (simp add: decimal.simps js_def)

section \<open>Refetch bindings of the two writes\<close>

text \<open>
  Claim C1.  The reads re-issued by a submission are determined as follows.  In
  CreateCompte, when the balance passes the guard and the saveCompte mutation resolves,
  exactly GET_ALL_COMPTES is sent again; in TransactionForm, when amount and account pass
  the guards and the addTransaction mutation resolves, exactly GET_ALL_TRANSACTIONS and
  GET_ALL_COMPTES are sent again.  In every other case no read is sent.
\<close>

theorem refetch_bindings:
  "refetched (snd (CreateCompte_handleSubmit c out)) =
     (if cc_solde c \<noteq> [] \<and> \<not> js_lt (parseFloat (cc_solde c)) (Num 0) \<and> out = Resolved
      then [GET_ALL_COMPTES] else [])
   \<and> refetched (snd (TransactionForm_handleSubmit t out)) =
     (if tf_montant t \<noteq> [] \<and> \<not> js_le (parseFloat (tf_montant t)) (Num 0)
         \<and> tf_compteId t \<noteq> [] \<and> out = Resolved
      then [GET_ALL_TRANSACTIONS, GET_ALL_COMPTES] else [])"
  by (cases out)
     (simp_all add: CreateCompte_handleSubmit_def TransactionForm_handleSubmit_def mutate_def
        CreateCompte_refetchQueries_def TransactionForm_refetchQueries_def)

section \<open>Validation in the transaction form\<close>

text \<open>
  Claim C2.  When the amount field is empty or parses to a value at most 0, submitting
  the transaction form sends nothing to the network, shows the single message
  "Veuillez entrer un montant valide", and leaves type, amount and selected account as
  they were.
\<close>

theorem invalid_amount_blocked:
  assumes "tf_montant st = [] \<or> js_le (parseFloat (tf_montant st)) (Num 0)"
  shows "fst (TransactionForm_handleSubmit st out) = st
       \<and> networkCalls (snd (TransactionForm_handleSubmit st out)) = []
       \<and> alerts (snd (TransactionForm_handleSubmit st out))
           = [js ''Veuillez entrer un montant valide'']"
  using assms by (auto simp add: TransactionForm_handleSubmit_def montant_invalide_def)

theorem invalid_amount_blocked_witness:
  "fst (TransactionForm_handleSubmit
          \<lparr>tf_type = js ''DEPOT'', tf_montant = js ''-5'', tf_compteId = js ''1''\<rparr> Resolved)
     = \<lparr>tf_type = js ''DEPOT'', tf_montant = js ''-5'', tf_compteId = js ''1''\<rparr>
   \<and> networkCalls (snd (TransactionForm_handleSubmit
          \<lparr>tf_type = js ''DEPOT'', tf_montant = js ''-5'', tf_compteId = js ''1''\<rparr> Resolved)) = []
   \<and> alerts (snd (TransactionForm_handleSubmit
          \<lparr>tf_type = js ''DEPOT'', tf_montant = js ''-5'', tf_compteId = js ''1''\<rparr> Resolved))
       = [js ''Veuillez entrer un montant valide'']
   \<and> networkCalls (snd (TransactionForm_handleSubmit
          \<lparr>tf_type = js ''DEPOT'', tf_montant = [], tf_compteId = js ''1''\<rparr> Resolved)) = []"
  using invalid_amount_blocked
          [of "\<lparr>tf_type = js ''DEPOT'', tf_montant = js ''-5'', tf_compteId = js ''1''\<rparr>" Resolved]
        invalid_amount_blocked
          [of "\<lparr>tf_type = js ''DEPOT'', tf_montant = [], tf_compteId = js ''1''\<rparr>" Resolved]
  by (simp add: parseFloat_minus5 js_le_def)

text \<open>
  Claim C3.  When the amount field is non-empty and parses to a value above 0 but no
  account is selected, submitting sends nothing to the network, leaves the form as it
  was and shows the single message "Veuillez selectionner un compte" (its first e of
  "selectionner" carrying an acute accent, code unit E9).  The amount is checked first:
  when the amount is empty or at most 0 and no account is selected, the only message
  shown is the one about the amount.
\<close>

theorem no_account_blocked:
  "(tf_montant st \<noteq> [] \<and> js_gt (parseFloat (tf_montant st)) (Num 0) \<and> tf_compteId st = [] \<longrightarrow>
      fst (TransactionForm_handleSubmit st out) = st
      \<and> networkCalls (snd (TransactionForm_handleSubmit st out)) = []
      \<and> alerts (snd (TransactionForm_handleSubmit st out))
          = [js ''Veuillez s'' @ [0xE9] @ js ''lectionner un compte''])
   \<and> ((tf_montant st = [] \<or> js_le (parseFloat (tf_montant st)) (Num 0)) \<and> tf_compteId st = [] \<longrightarrow>
      alerts (snd (TransactionForm_handleSubmit st out))
          = [js ''Veuillez entrer un montant valide''])"
  by (auto simp add: TransactionForm_handleSubmit_def montant_invalide_def
        compte_non_selectionne_def dest: js_gt_not_le)

theorem no_account_blocked_witness:
  "networkCalls (snd (TransactionForm_handleSubmit
       \<lparr>tf_type = js ''DEPOT'', tf_montant = js ''500'', tf_compteId = []\<rparr> Resolved)) = []
   \<and> alerts (snd (TransactionForm_handleSubmit
       \<lparr>tf_type = js ''DEPOT'', tf_montant = js ''500'', tf_compteId = []\<rparr> Resolved))
       = [js ''Veuillez s'' @ [0xE9] @ js ''lectionner un compte'']
   \<and> alerts (snd (TransactionForm_handleSubmit
       \<lparr>tf_type = js ''DEPOT'', tf_montant = js ''-5'', tf_compteId = []\<rparr> Resolved))
       = [js ''Veuillez entrer un montant valide'']"
  using no_account_blocked
          [of "\<lparr>tf_type = js ''DEPOT'', tf_montant = js ''500'', tf_compteId = []\<rparr>" Resolved]
        no_account_blocked
          [of "\<lparr>tf_type = js ''DEPOT'', tf_montant = js ''-5'', tf_compteId = []\<rparr>" Resolved]
  by (simp add: parseFloat_500 parseFloat_minus5 js_le_def js_gt_def js_not_Nil)

section \<open>The account creation form\<close>

text \<open>
  Claim C4.  When the balance field is non-empty and parses to a value of at least 0 and
  the saveCompte mutation resolves, the balance field becomes the empty string, the
  account kind becomes COURANT, the mutation and the GET_ALL_COMPTES read are the
  network calls, and the success message is shown.  When the balance field is empty or
  parses to a value below 0, nothing is sent, the form is unchanged and the single
  message "Veuillez entrer un solde valide" is shown.
\<close>

theorem create_account_form:
  "(cc_solde st \<noteq> [] \<and> js_ge (parseFloat (cc_solde st)) (Num 0) \<longrightarrow>
      fst (CreateCompte_handleSubmit st Resolved) = \<lparr>cc_solde = [], cc_type = js ''COURANT''\<rparr>
      \<and> fst (CreateCompte_handleSubmit st Resolved) = CreateCompte_initial
      \<and> networkCalls (snd (CreateCompte_handleSubmit st Resolved))
          = [NetworkMutation SAVE_COMPTE (CompteRequest (parseFloat (cc_solde st)) (cc_type st)),
             NetworkQuery GET_ALL_COMPTES]
      \<and> alerts (snd (CreateCompte_handleSubmit st Resolved)) = [compte_succes])
   \<and> (cc_solde st = [] \<or> js_lt (parseFloat (cc_solde st)) (Num 0) \<longrightarrow>
      fst (CreateCompte_handleSubmit st out) = st
      \<and> networkCalls (snd (CreateCompte_handleSubmit st out)) = []
      \<and> alerts (snd (CreateCompte_handleSubmit st out))
          = [js ''Veuillez entrer un solde valide''])"
  by (auto simp add: CreateCompte_handleSubmit_def solde_invalide_def mutate_def
        CreateCompte_refetchQueries_def CreateCompte_initial_def dest: js_ge_not_lt)

theorem create_account_form_witness:
  "fst (CreateCompte_handleSubmit \<lparr>cc_solde = js ''1000'', cc_type = js ''EPARGNE''\<rparr> Resolved)
     = \<lparr>cc_solde = [], cc_type = js ''COURANT''\<rparr>
   \<and> networkCalls (snd (CreateCompte_handleSubmit
        \<lparr>cc_solde = js ''1000'', cc_type = js ''EPARGNE''\<rparr> Resolved))
       = [NetworkMutation SAVE_COMPTE (CompteRequest (Num 1000) (js ''EPARGNE'')),
          NetworkQuery GET_ALL_COMPTES]
   \<and> networkCalls (snd (CreateCompte_handleSubmit
        \<lparr>cc_solde = js ''-5'', cc_type = js ''EPARGNE''\<rparr> Resolved)) = []
   \<and> networkCalls (snd (CreateCompte_handleSubmit
        \<lparr>cc_solde = [], cc_type = js ''EPARGNE''\<rparr> Resolved)) = []"
  using create_account_form
          [of "\<lparr>cc_solde = js ''1000'', cc_type = js ''EPARGNE''\<rparr>" Resolved]
        create_account_form
          [of "\<lparr>cc_solde = js ''-5'', cc_type = js ''EPARGNE''\<rparr>" Resolved]
        create_account_form
          [of "\<lparr>cc_solde = [], cc_type = js ''EPARGNE''\<rparr>" Resolved]
  by (simp add: parseFloat_1000 parseFloat_minus5 js_ge_def js_le_def js_not_Nil)

section \<open>Outcome of a transaction submission\<close>

text \<open>
  Claim C5.  When a transaction submission passes both guards and the addTransaction
  mutation resolves, the amount field becomes the empty string, while the selected
  account and the transaction type keep the values they had at submission time.
\<close>

theorem transaction_success_frame:
  assumes "tf_montant st \<noteq> []" and "\<not> js_le (parseFloat (tf_montant st)) (Num 0)"
    and "tf_compteId st \<noteq> []"
  shows "tf_montant (fst (TransactionForm_handleSubmit st Resolved)) = []
       \<and> tf_compteId (fst (TransactionForm_handleSubmit st Resolved)) = tf_compteId st
       \<and> tf_type (fst (TransactionForm_handleSubmit st Resolved)) = tf_type st
       \<and> networkCalls (snd (TransactionForm_handleSubmit st Resolved))
           = [NetworkMutation ADD_TRANSACTION
                (TransactionRequest (tf_type st) (parseFloat (tf_montant st)) (tf_compteId st)),
              NetworkQuery GET_ALL_TRANSACTIONS, NetworkQuery GET_ALL_COMPTES]
       \<and> alerts (snd (TransactionForm_handleSubmit st Resolved))
           = [transaction_succes (tf_type st)]"
  using assms
  by (simp add: TransactionForm_handleSubmit_def mutate_def TransactionForm_refetchQueries_def)

theorem transaction_success_frame_witness:
  "tf_montant (fst (TransactionForm_handleSubmit
      \<lparr>tf_type = js ''DEPOT'', tf_montant = js ''500'', tf_compteId = js ''1''\<rparr> Resolved)) = []
   \<and> tf_compteId (fst (TransactionForm_handleSubmit
      \<lparr>tf_type = js ''DEPOT'', tf_montant = js ''500'', tf_compteId = js ''1''\<rparr> Resolved)) = js ''1''
   \<and> tf_type (fst (TransactionForm_handleSubmit
      \<lparr>tf_type = js ''DEPOT'', tf_montant = js ''500'', tf_compteId = js ''1''\<rparr> Resolved)) = js ''DEPOT''
   \<and> networkCalls (snd (TransactionForm_handleSubmit
      \<lparr>tf_type = js ''DEPOT'', tf_montant = js ''500'', tf_compteId = js ''1''\<rparr> Resolved))
       = [NetworkMutation ADD_TRANSACTION (TransactionRequest (js ''DEPOT'') (Num 500) (js ''1'')),
          NetworkQuery GET_ALL_TRANSACTIONS, NetworkQuery GET_ALL_COMPTES]"
  using transaction_success_frame
          [of "\<lparr>tf_type = js ''DEPOT'', tf_montant = js ''500'', tf_compteId = js ''1''\<rparr>"]
  by (simp add: parseFloat_500 js_le_def js_not_Nil)

text \<open>
  Claim C6.  When a submission of either form passes its guards and the mutation is
  rejected with an error of message m, the form keeps every field as it was at
  submission time and the single message shown is the error notice ending in m.
\<close>

theorem failed_write_keeps_input:
  "(tf_montant t \<noteq> [] \<and> \<not> js_le (parseFloat (tf_montant t)) (Num 0) \<and> tf_compteId t \<noteq> [] \<longrightarrow>
      fst (TransactionForm_handleSubmit t (Rejected m)) = t
      \<and> networkCalls (snd (TransactionForm_handleSubmit t (Rejected m)))
          = [NetworkMutation ADD_TRANSACTION
               (TransactionRequest (tf_type t) (parseFloat (tf_montant t)) (tf_compteId t))]
      \<and> alerts (snd (TransactionForm_handleSubmit t (Rejected m)))
          = [[0x274C] @ js '' Erreur : '' @ m])
   \<and> (cc_solde c \<noteq> [] \<and> \<not> js_lt (parseFloat (cc_solde c)) (Num 0) \<longrightarrow>
      fst (CreateCompte_handleSubmit c (Rejected m)) = c
      \<and> networkCalls (snd (CreateCompte_handleSubmit c (Rejected m)))
          = [NetworkMutation SAVE_COMPTE (CompteRequest (parseFloat (cc_solde c)) (cc_type c))]
      \<and> alerts (snd (CreateCompte_handleSubmit c (Rejected m)))
          = [[0x274C] @ js '' Erreur : '' @ m])"
  by (simp add: TransactionForm_handleSubmit_def CreateCompte_handleSubmit_def mutate_def
        erreur_def)

theorem failed_write_keeps_input_witness:
  "fst (TransactionForm_handleSubmit
      \<lparr>tf_type = js ''DEPOT'', tf_montant = js ''500'', tf_compteId = js ''1''\<rparr>
      (Rejected (js ''Network error'')))
     = \<lparr>tf_type = js ''DEPOT'', tf_montant = js ''500'', tf_compteId = js ''1''\<rparr>
   \<and> alerts (snd (TransactionForm_handleSubmit
      \<lparr>tf_type = js ''DEPOT'', tf_montant = js ''500'', tf_compteId = js ''1''\<rparr>
      (Rejected (js ''Network error''))))
       = [[0x274C] @ js '' Erreur : '' @ js ''Network error'']
   \<and> fst (CreateCompte_handleSubmit \<lparr>cc_solde = js ''1000'', cc_type = js ''EPARGNE''\<rparr>
      (Rejected (js ''Network error'')))
     = \<lparr>cc_solde = js ''1000'', cc_type = js ''EPARGNE''\<rparr>
   \<and> alerts (snd (CreateCompte_handleSubmit \<lparr>cc_solde = js ''1000'', cc_type = js ''EPARGNE''\<rparr>
      (Rejected (js ''Network error''))))
       = [[0x274C] @ js '' Erreur : '' @ js ''Network error'']"
  using failed_write_keeps_input
          [of "\<lparr>tf_type = js ''DEPOT'', tf_montant = js ''500'', tf_compteId = js ''1''\<rparr>"
              "js ''Network error''" "\<lparr>cc_solde = js ''1000'', cc_type = js ''EPARGNE''\<rparr>"]
  by (simp add: parseFloat_500 parseFloat_1000 js_le_def js_not_Nil)

section \<open>The account list\<close>

text \<open>
  Claim C7.  What CompteList renders is decided by the state of its read.  While
  loading, it is the loading indicator, which has the text "Chargement des comptes..."
  and no row.  When the read has failed with message m, it is the error view, which
  shows m and has no row.  When the read has returned a non-empty list of accounts, the
  view has exactly one row per account, in order and keyed by the account id, and the
  label "Total: N compte(s)" with N the number of accounts.
\<close>

theorem CompteList_three_states:
  "(qr_loading q \<longrightarrow> CompteList f g q = Inr chargement)
   \<and> Text (js ''Chargement des comptes...'') \<in> set (nodes chargement)
   \<and> rows chargement = []
   \<and> (\<not> qr_loading q \<and> qr_error q = Some m \<longrightarrow> CompteList f g q = Inr (erreur_chargement m))
   \<and> Text m \<in> set (nodes (erreur_chargement m))
   \<and> rows (erreur_chargement m) = []
   \<and> (\<not> qr_loading q \<and> qr_error q = None \<and> qr_data q = Some cs \<and> cs \<noteq> [] \<longrightarrow>
        (\<exists>v. CompteList f g q = Inr v
           \<and> rows v = map compte_id cs
           \<and> length (rows v) = length cs
           \<and> js ''Total: '' @ decimal (length cs) @ js '' compte(s)''
                \<in> textContent ` set (nodes v)))"
proof -
  have loading: "qr_loading q \<longrightarrow> CompteList f g q = Inr chargement"
    by (simp add: CompteList_def)
  have loading_view: "Text (js ''Chargement des comptes...'') \<in> set (nodes chargement)"
    "rows chargement = []"
    by (simp_all add: chargement_def)
  have failed: "\<not> qr_loading q \<and> qr_error q = Some m \<longrightarrow>
      CompteList f g q = Inr (erreur_chargement m)"
    by (simp add: CompteList_def)
  have failed_view: "Text m \<in> set (nodes (erreur_chargement m))"
    "rows (erreur_chargement m) = []"
    by (simp_all add: erreur_chargement_def)
  have ready: "\<exists>v. CompteList f g q = Inr v
           \<and> rows v = map compte_id cs
           \<and> length (rows v) = length cs
           \<and> js ''Total: '' @ decimal (length cs) @ js '' compte(s)''
                \<in> textContent ` set (nodes v)"
    if "\<not> qr_loading q" "qr_error q = None" "qr_data q = Some cs" "cs \<noteq> []"
  proof -
    let ?v = "Elem ''div'' [ClassName ''space-y-4'']
                [entete (length cs),
                 Elem ''div'' [ClassName ''grid gap-4''] (map (carte f g) cs)]"
    have "CompteList f g q = Inr ?v"
      using that by (simp add: CompteList_def)
    moreover have "rows ?v = map compte_id cs"
      by (simp add: rows_entete rows_cartes)
    moreover have "js ''Total: '' @ decimal (length cs) @ js '' compte(s)''
                \<in> textContent ` set (nodes ?v)"
      using label_entete [of "length cs"] by auto
    ultimately show ?thesis by simp
  qed
  from loading loading_view failed failed_view ready show ?thesis by blast
qed

theorem CompteList_three_states_witness:
  "CompteList (\<lambda>x. if x = Num (3001 / 2) then js ''1500.50'' else js ''5000.00'')
      (\<lambda>s. if s = js ''2025-01-15'' then js ''15/01/2025'' else js ''20/02/2025'')
      \<lparr>qr_loading = True, qr_error = None, qr_data = None\<rparr> = Inr chargement
   \<and> CompteList (\<lambda>x. if x = Num (3001 / 2) then js ''1500.50'' else js ''5000.00'')
      (\<lambda>s. if s = js ''2025-01-15'' then js ''15/01/2025'' else js ''20/02/2025'')
      \<lparr>qr_loading = False, qr_error = Some (js ''Erreur GraphQL''), qr_data = None\<rparr>
       = Inr (erreur_chargement (js ''Erreur GraphQL''))
   \<and> (\<exists>v. CompteList (\<lambda>x. if x = Num (3001 / 2) then js ''1500.50'' else js ''5000.00'')
            (\<lambda>s. if s = js ''2025-01-15'' then js ''15/01/2025'' else js ''20/02/2025'')
            \<lparr>qr_loading = False, qr_error = None, qr_data = Some mockComptes\<rparr> = Inr v
         \<and> rows v = [js ''1'', js ''2'']
         \<and> js ''Total: '' @ js ''2'' @ js '' compte(s)'' \<in> textContent ` set (nodes v))"
  using CompteList_three_states
          [of "\<lparr>qr_loading = True, qr_error = None, qr_data = None\<rparr>"
              "\<lambda>x. if x = Num (3001 / 2) then js ''1500.50'' else js ''5000.00''"
              "\<lambda>s. if s = js ''2025-01-15'' then js ''15/01/2025'' else js ''20/02/2025''"
              "js ''Erreur GraphQL''" mockComptes]
        CompteList_three_states
          [of "\<lparr>qr_loading = False, qr_error = Some (js ''Erreur GraphQL''), qr_data = None\<rparr>"
              "\<lambda>x. if x = Num (3001 / 2) then js ''1500.50'' else js ''5000.00''"
              "\<lambda>s. if s = js ''2025-01-15'' then js ''15/01/2025'' else js ''20/02/2025''"
              "js ''Erreur GraphQL''" mockComptes]
        CompteList_three_states
          [of "\<lparr>qr_loading = False, qr_error = None, qr_data = Some mockComptes\<rparr>"
              "\<lambda>x. if x = Num (3001 / 2) then js ''1500.50'' else js ''5000.00''"
              "\<lambda>s. if s = js ''2025-01-15'' then js ''15/01/2025'' else js ''20/02/2025''"
              "js ''Erreur GraphQL''" mockComptes]
  by (simp add: mockComptes_def decimal_2) blast

text \<open>
  Claim C10.  With an empty list of accounts the ready view has the label
  "Total: 0 compte(s)", the notice "Aucun compte disponible" and no row; its only button
  is the refresh button, and clicking it sends the GET_ALL_COMPTES read again.
\<close>

theorem CompteList_empty:
  "CompteList f g \<lparr>qr_loading = False, qr_error = None, qr_data = Some []\<rparr>
     = Inr (Elem ''div'' [ClassName ''space-y-4''] [entete 0, aucun_compte])
   \<and> rows (Elem ''div'' [ClassName ''space-y-4''] [entete 0, aucun_compte]) = []
   \<and> js ''Total: '' @ js ''0'' @ js '' compte(s)''
        \<in> textContent ` set (nodes (Elem ''div'' [ClassName ''space-y-4''] [entete 0, aucun_compte]))
   \<and> Text (js ''Aucun compte disponible'')
        \<in> set (nodes (Elem ''div'' [ClassName ''space-y-4''] [entete 0, aucun_compte]))
   \<and> buttons (Elem ''div'' [ClassName ''space-y-4''] [entete 0, aucun_compte])
        = [Refetch GET_ALL_COMPTES]
   \<and> fire (Refetch GET_ALL_COMPTES) = [NetworkQuery GET_ALL_COMPTES]"
proof -
  have "js ''Total: '' @ js ''0'' @ js '' compte(s)'' \<in> textContent ` set (nodes (entete 0))"
    using label_entete [of 0] by (simp only: decimal_0)
  moreover have "Text (js ''Aucun compte disponible'') \<in> set (nodes aucun_compte)"
    by (simp add: aucun_compte_def)
  moreover have "rows aucun_compte = []" "buttons aucun_compte = []"
    by (simp_all add: aucun_compte_def)
  moreover have "buttons (entete 0) = [Refetch GET_ALL_COMPTES]"
    by (simp add: entete_def CompteList_query_def)
  ultimately show ?thesis
    by (auto simp add: CompteList_def rows_entete refetch_def)
qed

section \<open>The transport client\<close>

text \<open>
  Claim C8.  The client's default fetch policy is network-only for watched queries and
  for one-shot queries alike, and the client holds an in-memory cache.  Hence every read
  issued without a policy of its own, whatever the operation and whatever the cache
  holds, goes to the network, and its result is stored in the cache.
\<close>

theorem network_only_reads:
  "watchQuery_fetchPolicy (defaultOptions client) = Some NetworkOnly
   \<and> query_fetchPolicy (defaultOptions client) = Some NetworkOnly
   \<and> cache client = InMemoryCache
   \<and> effectivePolicy client k None = NetworkOnly
   \<and> readGoesToNetwork client k doc cached
   \<and> storesResult (effectivePolicy client k None)"
  by (cases k) (simp_all add: client_def readGoesToNetwork_def effectivePolicy_def defaultPolicy_def)

section \<open>Non-numeric input and the guards\<close>

text \<open>
  Claim C9.  The non-empty input "abc" parses to NaN, which is neither at most 0 nor
  above 0.  With an account selected, the transaction form therefore sends the
  addTransaction mutation with montant NaN.  NaN is neither below 0 nor at least 0
  either, so the account creation form sends the saveCompte mutation with solde NaN.
\<close>

theorem nan_passes_guards:
  "js ''abc'' \<noteq> []
   \<and> parseFloat (js ''abc'') = NaN
   \<and> \<not> js_le NaN (Num 0) \<and> \<not> js_gt NaN (Num 0)
   \<and> networkCalls (snd (TransactionForm_handleSubmit
        \<lparr>tf_type = js ''DEPOT'', tf_montant = js ''abc'', tf_compteId = js ''1''\<rparr> Resolved))
       = [NetworkMutation ADD_TRANSACTION (TransactionRequest (js ''DEPOT'') NaN (js ''1'')),
          NetworkQuery GET_ALL_TRANSACTIONS, NetworkQuery GET_ALL_COMPTES]
   \<and> \<not> js_lt NaN (Num 0) \<and> \<not> js_ge NaN (Num 0)
   \<and> networkCalls (snd (CreateCompte_handleSubmit
        \<lparr>cc_solde = js ''abc'', cc_type = js ''COURANT''\<rparr> Resolved))
       = [NetworkMutation SAVE_COMPTE (CompteRequest NaN (js ''COURANT'')),
          NetworkQuery GET_ALL_COMPTES]"
  by (simp add: TransactionForm_handleSubmit_def CreateCompte_handleSubmit_def mutate_def
        TransactionForm_refetchQueries_def CreateCompte_refetchQueries_def
        parseFloat_abc js_not_Nil js_le_def js_gt_def js_ge_def)

end
